theory Spec2Isabelle
  imports Main
begin

section \<open>pysparky.utils: the utilities over the host framework\<close>

text \<open>
  The module \<^verbatim>\<open>src/pysparky/utils.py\<close> holds three functions, each a short composition
  of calls into PySpark. PySpark itself is not part of the repository, so the framework
  is a parameter of the model: a record of the operations the utilities call. Every
  exception of the source is a value of type \<open>error\<close>; a call that talks to the framework
  takes the framework's state and returns the new one, so that a call the utilities do
  not make leaves the state as it was.
\<close>

subsection \<open>Python values and exceptions\<close>

text \<open>
  ValueError and TypeError carry their message, AttributeError the name of the attribute
  that is missing. The other three are the framework's own: AnalysisException when it
  rejects a plan or an expression, Py4JError when a Python value cannot be handed to it,
  SparkRuntimeException when evaluating an expression fails.
\<close>

datatype error =
    ValueError string
  | TypeError string
  | AttributeError string
  | AnalysisException string
  | Py4JError string
  | SparkRuntimeException string

text \<open>
  The variadic parameter is annotated \<^verbatim>\<open>*dataframes: DataFrame | list[DataFrame]\<close>: each
  positional argument is a DataFrame or a Python list of DataFrames.
\<close>

datatype 'df pyval = DataFrame 'df | PyList "'df list"

text \<open>A computation that may raise and that may change the framework's state.\<close>

type_synonym ('a, 's) py = "'s \<Rightarrow> (error + 'a) \<times> 's"

definition py_return :: "'a \<Rightarrow> ('a, 's) py" where
  "py_return x s = (Inr x, s)"

definition py_bind :: "('a, 's) py \<Rightarrow> ('a \<Rightarrow> ('b, 's) py) \<Rightarrow> ('b, 's) py" where
  "py_bind m f s = (case m s of (Inl e, s') \<Rightarrow> (Inl e, s') | (Inr x, s') \<Rightarrow> f x s')"

subsection \<open>The framework as a parameter\<close>

text \<open>
  \<open>df_columns\<close> is the attribute \<^verbatim>\<open>df.columns\<close>, \<open>df_join\<close> the method
  \<^verbatim>\<open>df1.join(df2, on=..., how=...)\<close> and \<open>df_union\<close> the method \<^verbatim>\<open>df1.union(df2)\<close> of a
  DataFrame \<open>df1\<close>. The other operand is whatever Python value the caller passes; the
  framework decides what to do with one that is no DataFrame.
\<close>

record ('df, 's) engine =
  df_columns :: "'df \<Rightarrow> 's \<Rightarrow> string list"
  df_join :: "'df \<Rightarrow> 'df pyval \<Rightarrow> string \<Rightarrow> string \<Rightarrow> ('df, 's) py"
  df_union :: "'df \<Rightarrow> 'df pyval \<Rightarrow> ('df, 's) py"

text \<open>Attribute access and method calls on a Python value: a list has none of the three.\<close>

definition columns_attr :: "('df, 's) engine \<Rightarrow> 'df pyval \<Rightarrow> 's \<Rightarrow> error + string list" where
  "columns_attr E df s =
     (case df of
        DataFrame d \<Rightarrow> Inr (df_columns E d s)
      | PyList _ \<Rightarrow> Inl (AttributeError ''columns''))"

definition join_method ::
  "('df, 's) engine \<Rightarrow> 'df pyval \<Rightarrow> 'df pyval \<Rightarrow> string \<Rightarrow> string \<Rightarrow> ('df pyval, 's) py" where
  "join_method E df1 df2 on how s =
     (case df1 of
        DataFrame d \<Rightarrow> (case df_join E d df2 on how s of (r, s') \<Rightarrow> (map_sum id DataFrame r, s'))
      | PyList _ \<Rightarrow> (Inl (AttributeError ''join''), s))"

definition union_method ::
  "('df, 's) engine \<Rightarrow> 'df pyval \<Rightarrow> 'df pyval \<Rightarrow> ('df pyval, 's) py" where
  "union_method E df1 df2 s =
     (case df1 of
        DataFrame d \<Rightarrow> (case df_union E d df2 s of (r, s') \<Rightarrow> (map_sum id DataFrame r, s'))
      | PyList _ \<Rightarrow> (Inl (AttributeError ''union''), s))"

subsection \<open>functools.reduce and the generator under all()\<close>

text \<open>
  \<^verbatim>\<open>reduce(function, iterable)\<close> with no initial value: the first element starts the
  accumulator, an empty iterable raises TypeError, an exception of \<open>function\<close> ends the loop.
\<close>

fun reduce_loop :: "('a \<Rightarrow> 'a \<Rightarrow> ('a, 's) py) \<Rightarrow> 'a \<Rightarrow> 'a list \<Rightarrow> ('a, 's) py" where
  "reduce_loop f acc [] s = (Inr acc, s)"
| "reduce_loop f acc (x # xs) s =
     (case f acc x s of
        (Inl e, s') \<Rightarrow> (Inl e, s')
      | (Inr acc', s') \<Rightarrow> reduce_loop f acc' xs s')"

fun reduce :: "('a \<Rightarrow> 'a \<Rightarrow> ('a, 's) py) \<Rightarrow> 'a list \<Rightarrow> ('a, 's) py" where
  "reduce f [] s = (Inl (TypeError ''reduce() of empty iterable with no initial value''), s)"
| "reduce f (x # xs) s = reduce_loop f x xs s"

text \<open>
  \<^verbatim>\<open>all(column_name in df.columns for df in dataframes)\<close>: elements are visited in order,
  the first one without the column ends the walk with False, and reading \<^verbatim>\<open>.columns\<close> of
  a list raises.
\<close>

fun all_have_column ::
  "('df, 's) engine \<Rightarrow> string \<Rightarrow> 'df pyval list \<Rightarrow> 's \<Rightarrow> error + bool" where
  "all_have_column E column_name [] s = Inr True"
| "all_have_column E column_name (df # rest) s =
     (case columns_attr E df s of
        Inl e \<Rightarrow> Inl e
      | Inr cols \<Rightarrow>
          if column_name \<in> set cols then all_have_column E column_name rest s
          else Inr False)"

subsection \<open>join_dataframes_on_column and union_dataframes\<close>

definition at_least_one :: error where
  "at_least_one = ValueError ''At least one DataFrame must be provided''"

definition column_not_found :: "string \<Rightarrow> error" where
  "column_not_found column_name =
     ValueError (''Column '' @ [CHR 0x27] @ column_name @ [CHR 0x27] @ '' not found in all DataFrames'')"

text \<open>
  In both functions \<^verbatim>\<open>if isinstance(dataframes[0], list): dataframes = dataframes[0]\<close>
  rebinds the local name to the first argument when that is a list; its elements are
  DataFrames.
\<close>

definition join_dataframes_on_column ::
  "('df, 's) engine \<Rightarrow> string \<Rightarrow> 'df pyval list \<Rightarrow> ('df pyval, 's) py" where
  "join_dataframes_on_column E column_name dataframes s =
     (if dataframes = [] then (Inl at_least_one, s)
      else
        let dataframes = (case dataframes of PyList l # _ \<Rightarrow> map DataFrame l | _ \<Rightarrow> dataframes) in
        case all_have_column E column_name dataframes s of
          Inl e \<Rightarrow> (Inl e, s)
        | Inr ok \<Rightarrow>
            if \<not> ok then (Inl (column_not_found column_name), s)
            else reduce (\<lambda>df1 df2. join_method E df1 df2 column_name ''outer'') dataframes s)"

definition union_dataframes :: "('df, 's) engine \<Rightarrow> 'df pyval list \<Rightarrow> ('df pyval, 's) py" where
  "union_dataframes E dataframes s =
     (if dataframes = [] then (Inl at_least_one, s)
      else
        let dataframes = (case dataframes of PyList l # _ \<Rightarrow> map DataFrame l | _ \<Rightarrow> dataframes) in
        reduce (\<lambda>df1 df2. union_method E df1 df2) dataframes s)"

subsection \<open>create_map_from_dict\<close>

text \<open>
  A \<^verbatim>\<open>dict[str, int]\<close> is its list of items in insertion order; the keys of a dict are
  distinct. \<^verbatim>\<open>F.lit\<close> receives a Python string or a Python integer.
\<close>

datatype pyobj = PyStr string | PyInt int

text \<open>
  \<open>F_lit\<close> is \<^verbatim>\<open>F.lit\<close> and \<open>F_create_map\<close> is \<^verbatim>\<open>F.create_map\<close> called with one list of
  columns. Either may raise: which Python values become literals and which lists of
  columns become a map is the framework's decision.
\<close>

record 'col sql_functions =
  F_lit :: "pyobj \<Rightarrow> error + 'col"
  F_create_map :: "'col list \<Rightarrow> error + 'col"

text \<open>\<^verbatim>\<open>dict_.items()\<close>: the (key, value) tuples.\<close>

definition items :: "(string \<times> int) list \<Rightarrow> (pyobj \<times> pyobj) list" where
  "items dict = map (\<lambda>(k, v). (PyStr k, PyInt v)) dict"

text \<open>\<^verbatim>\<open>itertools.chain(*tuples)\<close> over two-element tuples: key, value, key, value, ...\<close>

definition chain :: "('a \<times> 'a) list \<Rightarrow> 'a list" where
  "chain tuples = concat (map (\<lambda>(x, y). [x, y]) tuples)"

text \<open>
  \<^verbatim>\<open>list(map(function, iterable))\<close>: the function is applied to the elements in order, and
  the first call that raises ends the walk with its exception.
\<close>

fun list_map :: "('a \<Rightarrow> error + 'b) \<Rightarrow> 'a list \<Rightarrow> error + 'b list" where
  "list_map f [] = Inr []"
| "list_map f (x # xs) =
     (case f x of
        Inl e \<Rightarrow> Inl e
      | Inr y \<Rightarrow> (case list_map f xs of Inl e \<Rightarrow> Inl e | Inr ys \<Rightarrow> Inr (y # ys)))"

definition create_map_from_dict :: "'col sql_functions \<Rightarrow> (string \<times> int) list \<Rightarrow> error + 'col" where
  "create_map_from_dict F dict =
     (case list_map (F_lit F) (chain (items dict)) of
        Inl e \<Rightarrow> Inl e
      | Inr cols \<Rightarrow> F_create_map F cols)"

section \<open>The left fold the specification speaks of\<close>

text \<open>
  The specification describes both combinators as a pairwise operation folded from left
  to right: \<open>((d1 op d2) op d3) ... op dn\<close>. Written with the library's \<open>foldl\<close>, where
  each step runs only if the steps before it returned.
\<close>

definition fold_left :: "('a \<Rightarrow> 'a \<Rightarrow> ('a, 's) py) \<Rightarrow> 'a \<Rightarrow> 'a list \<Rightarrow> ('a, 's) py" where
  "fold_left f x xs = foldl (\<lambda>m y. py_bind m (\<lambda>acc. f acc y)) (py_return x) xs"

text \<open>The pairwise outer join on a column: \<^verbatim>\<open>df1.join(df2, on=column_name, how="outer")\<close>.\<close>

definition outer_join ::
  "('df, 's) engine \<Rightarrow> string \<Rightarrow> 'df pyval \<Rightarrow> 'df pyval \<Rightarrow> ('df pyval, 's) py" where
  "outer_join E column_name df1 df2 = join_method E df1 df2 column_name ''outer''"

section \<open>A reference framework\<close>

text \<open>
  A small framework to run the utilities on: it stands for PySpark in the concrete
  instances below and is built from PySpark's documented behaviour, not from code of this
  repository. A DataFrame is a handle (an index) into the list of tables the framework
  has built so far; join and union append the new table and return its handle, and fail
  with the state as it was when the operands do not fit. Cells are nullable integers and
  every row is as long as the list of columns.
\<close>

type_synonym cell = "int option"

record table =
  tcolumns :: "string list"
  trows :: "cell list list"

definition column_index :: "string \<Rightarrow> string list \<Rightarrow> nat" where
  "column_index c cols = length (takeWhile (\<lambda>x. x \<noteq> c) cols)"

definition without :: "nat \<Rightarrow> 'a list \<Rightarrow> 'a list" where
  "without i xs = take i xs @ drop (Suc i) xs"

definition key_match :: "nat \<Rightarrow> nat \<Rightarrow> cell list \<Rightarrow> cell list \<Rightarrow> bool" where
  "key_match i j l r = (l ! i \<noteq> None \<and> l ! i = r ! j)"

text \<open>
  The full outer join on one column name: the key column comes first, then the other
  columns of the left and of the right table; a row without a partner is padded with nulls.
\<close>

definition full_outer_join :: "string \<Rightarrow> table \<Rightarrow> table \<Rightarrow> table" where
  "full_outer_join c a b =
     (let i = column_index c (tcolumns a);
          j = column_index c (tcolumns b);
          nulls_a = replicate (length (tcolumns a) - 1) None;
          nulls_b = replicate (length (tcolumns b) - 1) None
      in \<lparr>tcolumns = c # without i (tcolumns a) @ without j (tcolumns b),
          trows =
            concat (map (\<lambda>l. case filter (key_match i j l) (trows b) of
                                 [] \<Rightarrow> [l ! i # without i l @ nulls_b]
                               | ms \<Rightarrow> map (\<lambda>r. l ! i # without i l @ without j r) ms)
                      (trows a))
            @ map (\<lambda>r. r ! j # nulls_a @ without j r)
                (filter (\<lambda>r. \<not> list_ex (\<lambda>l. key_match i j l r) (trows a)) (trows b))\<rparr>)"

text \<open>The union by position, duplicates kept; the column names are those of the left table.\<close>

definition union_all :: "table \<Rightarrow> table \<Rightarrow> table" where
  "union_all a b = \<lparr>tcolumns = tcolumns a, trows = trows a @ trows b\<rparr>"

definition store_engine :: "(nat, table list) engine" where
  "store_engine =
     \<lparr>df_columns = (\<lambda>d s. if d < length s then tcolumns (s ! d) else []),
      df_join = (\<lambda>d other on how s.
        case other of
          PyList _ \<Rightarrow> (Inl (AttributeError ''_jdf''), s)
        | DataFrame d' \<Rightarrow>
            if d < length s \<and> d' < length s \<and> how = ''outer''
               \<and> on \<in> set (tcolumns (s ! d)) \<and> on \<in> set (tcolumns (s ! d'))
            then (Inr (length s), s @ [full_outer_join on (s ! d) (s ! d')])
            else (Inl (AnalysisException ''join''), s)),
      df_union = (\<lambda>d other s.
        case other of
          PyList _ \<Rightarrow> (Inl (AttributeError ''_jdf''), s)
        | DataFrame d' \<Rightarrow>
            if d < length s \<and> d' < length s
               \<and> length (tcolumns (s ! d)) = length (tcolumns (s ! d'))
            then (Inr (length s), s @ [union_all (s ! d) (s ! d')])
            else (Inl (AnalysisException ''union''), s))\<rparr>"

text \<open>Four tables: three share the column \<open>id\<close>, the fourth does not have it.\<close>

definition example_store :: "table list" where
  "example_store =
     [\<lparr>tcolumns = [''id'', ''a''], trows = [[Some 1, Some 10], [Some 2, Some 20]]\<rparr>,
      \<lparr>tcolumns = [''id'', ''b''], trows = [[Some 2, Some 5], [Some 3, Some 6]]\<rparr>,
      \<lparr>tcolumns = [''id'', ''c''], trows = [[Some 1, Some 7]]\<rparr>,
      \<lparr>tcolumns = [''k'', ''c''], trows = []\<rparr>]"

definition joined_01 :: table where
  "joined_01 =
     \<lparr>tcolumns = [''id'', ''a'', ''b''],
      trows = [[Some 1, Some 10, None], [Some 2, Some 20, Some 5], [Some 3, None, Some 6]]\<rparr>"

definition joined_012 :: table where
  "joined_012 =
     \<lparr>tcolumns = [''id'', ''a'', ''b'', ''c''],
      trows = [[Some 1, Some 10, None, Some 7], [Some 2, Some 20, Some 5, None],
               [Some 3, None, Some 6, None]]\<rparr>"

text \<open>
  The family of DataFrames with two columns, which the reference union accepts pairwise,
  and the number of rows of a DataFrame (\<^verbatim>\<open>df.count()\<close>).
\<close>

definition two_columns :: "table list \<Rightarrow> nat \<Rightarrow> bool" where
  "two_columns s d = (d < length s \<and> length (tcolumns (s ! d)) = 2)"

definition count_rows :: "table list \<Rightarrow> nat \<Rightarrow> nat" where
  "count_rows s d = length (trows (s ! d))"

text \<open>The object a handle stands for, None for a handle not yet given out.\<close>

definition store_objects :: "table list \<Rightarrow> nat \<Rightarrow> table option" where
  "store_objects s d = (if d < length s then Some (s ! d) else None)"

text \<open>
  Columns are expressions. \<^verbatim>\<open>F.lit\<close> wraps a Python string, and a Python integer that
  fits a signed 64-bit integer; handing over a larger one fails with Py4JError.
  \<^verbatim>\<open>F.create_map\<close> builds the expression without looking at its arguments (an empty
  argument list gives the expression of the empty map).
\<close>

datatype column = Lit pyobj | CreateMap "column list"

definition int64 :: "int \<Rightarrow> bool" where
  "int64 n = (- (2 ^ 63) \<le> n \<and> n < 2 ^ 63)"

fun spark_lit :: "pyobj \<Rightarrow> error + column" where
  "spark_lit (PyStr s) = Inr (Lit (PyStr s))"
| "spark_lit (PyInt n) =
     (if int64 n then Inr (Lit (PyInt n)) else Inl (Py4JError ''NumberFormatException''))"

definition spark_functions :: "column sql_functions" where
  "spark_functions = \<lparr>F_lit = spark_lit, F_create_map = (\<lambda>cols. Inr (CreateMap cols))\<rparr>"

text \<open>
  The arguments of \<^verbatim>\<open>F.create_map\<close> are grouped as key, value, key, value, ...
\<close>

fun key_value_pairs :: "'a list \<Rightarrow> ('a \<times> 'a) list" where
  "key_value_pairs (k # v # rest) = (k, v) # key_value_pairs rest"
| "key_value_pairs _ = []"

text \<open>
  \<open>element_at m key\<close> is the lookup of \<open>key\<close> in the map column \<open>m\<close>: the value held under
  the key, None (NULL) for a key the map does not hold. The framework rejects the lookup
  in a column that is no map, in the empty map (its key type is not that of the key) and
  in a map built from an odd number of arguments; building a map with a repeated key
  fails when the expression is evaluated.
\<close>

definition element_at :: "column \<Rightarrow> column \<Rightarrow> error + column option" where
  "element_at m key =
     (case m of
        Lit _ \<Rightarrow> Inl (AnalysisException ''not a map'')
      | CreateMap cols \<Rightarrow>
          if cols = [] \<or> odd (length cols) then Inl (AnalysisException ''map'')
          else if \<not> distinct (map fst (key_value_pairs cols))
          then Inl (SparkRuntimeException ''DUPLICATED_MAP_KEY'')
          else Inr (map_of (key_value_pairs cols) key))"

section \<open>Auxiliary facts\<close>

subsection \<open>The loop of reduce is the left fold\<close>

lemma foldl_bind_raised:
  "m s = (Inl e, s') \<Longrightarrow> foldl (\<lambda>m y. py_bind m (\<lambda>acc. f acc y)) m xs s = (Inl e, s')"
  by (induction xs arbitrary: m) (simp_all add: py_bind_def)

lemma foldl_bind_returned:
  "m s = (Inr a, s') \<Longrightarrow>
   foldl (\<lambda>m y. py_bind m (\<lambda>acc. f acc y)) m xs s = reduce_loop f a xs s'"
proof (induction xs arbitrary: m a s')
  case Nil
  then show ?case by simp
next
  case (Cons x xs)
  obtain r t where step: "f a x s' = (r, t)" by (cases "f a x s'")
  show ?case
  proof (cases r)
    case (Inl e)
    with step Cons.prems have "py_bind m (\<lambda>acc. f acc x) s = (Inl e, t)"
      by (simp add: py_bind_def)
    then show ?thesis using step Inl by (simp add: foldl_bind_raised)
  next
    case (Inr b)
    with step Cons.prems have "py_bind m (\<lambda>acc. f acc x) s = (Inr b, t)"
      by (simp add: py_bind_def)
    then show ?thesis using step Inr Cons.IH by simp
  qed
qed

lemma reduce_loop_fold_left: "reduce_loop f x xs s = fold_left f x xs s"
  by (simp add: fold_left_def foldl_bind_returned [where s' = s] py_return_def)

text \<open>
  With a pairwise operation that neither raises nor touches the state, \<open>fold_left\<close> is
  the plain \<open>foldl\<close> of the library.
\<close>

lemma reduce_loop_pure:
  assumes "\<And>a b s. f a b s = (Inr (g a b), s)"
  shows "reduce_loop f x xs s = (Inr (foldl g x xs), s)"
  by (induction xs arbitrary: x) (simp_all add: assms)

lemma fold_left_pure:
  assumes "\<And>a b s. f a b s = (Inr (g a b), s)"
  shows "fold_left f x xs s = (Inr (foldl g x xs), s)"
  using reduce_loop_pure [of f g, OF assms] by (simp add: reduce_loop_fold_left [symmetric])

lemma join_lambda_outer_join:
  "(\<lambda>df1 df2. join_method E df1 df2 column_name ''outer'') = outer_join E column_name"
  by (simp add: outer_join_def fun_eq_iff)

subsection \<open>The column check on DataFrames\<close>

lemma all_have_column_DataFrames:
  "all_have_column E c (map DataFrame ds) s = Inr (\<forall>d\<in>set ds. c \<in> set (df_columns E d s))"
  by (induction ds) (simp_all add: columns_attr_def)

subsection \<open>A relation between states that every step respects\<close>

lemma reduce_loop_frame:
  assumes "\<And>s. R s s" and "\<And>s t u. R s t \<Longrightarrow> R t u \<Longrightarrow> R s u"
    and "\<And>a b s. R s (snd (f a b s))"
  shows "R s (snd (reduce_loop f a xs s))"
proof (induction xs arbitrary: a s)
  case Nil
  then show ?case using assms(1) by simp
next
  case (Cons x xs)
  obtain r t where step: "f a x s = (r, t)" by (cases "f a x s")
  have st: "R s t" using assms(3) [of s a x] step by simp
  show ?case
  proof (cases r)
    case (Inl e)
    then show ?thesis using step st by simp
  next
    case (Inr b)
    have "R t (snd (reduce_loop f b xs t))" by (rule Cons.IH)
    with st have "R s (snd (reduce_loop f b xs t))" by (rule assms(2))
    then show ?thesis using step Inr by simp
  qed
qed

subsection \<open>Row counts along the loop of union_dataframes\<close>

lemma union_loop_row_count:
  fixes E :: "('df, 's) engine" and S :: "'s \<Rightarrow> 'df \<Rightarrow> bool"
    and row_count :: "'s \<Rightarrow> 'df \<Rightarrow> nat"
  assumes step: "\<And>a b s. S s a \<Longrightarrow> S s b \<Longrightarrow>
      \<exists>c s'. df_union E a (DataFrame b) s = (Inr c, s') \<and> S s' c
        \<and> row_count s' c = row_count s a + row_count s b
        \<and> (\<forall>d. S s d \<longrightarrow> S s' d \<and> row_count s' d = row_count s d)"
  shows "S s a \<Longrightarrow> \<forall>d\<in>set ds. S s d \<Longrightarrow>
     \<exists>r s'. reduce_loop (union_method E) (DataFrame a) (map DataFrame ds) s
               = (Inr (DataFrame r), s')
       \<and> row_count s' r = row_count s a + sum_list (map (row_count s) ds)"
proof (induction ds arbitrary: a s)
  case Nil
  then show ?case by simp
next
  case (Cons d ds)
  from Cons.prems have Sd: "S s d" and Sds: "\<forall>x\<in>set ds. S s x" by simp_all
  from step [OF Cons.prems(1) Sd] obtain c t where
    un: "df_union E a (DataFrame d) s = (Inr c, t)" and Sc: "S t c"
    and cnt: "row_count t c = row_count s a + row_count s d"
    and keep: "\<forall>x. S s x \<longrightarrow> S t x \<and> row_count t x = row_count s x"
    by blast
  have Sds': "\<forall>x\<in>set ds. S t x" using Sds keep by blast
  from Cons.IH [OF Sc Sds'] obtain r u where
    loop: "reduce_loop (union_method E) (DataFrame c) (map DataFrame ds) t
             = (Inr (DataFrame r), u)"
    and total: "row_count u r = row_count t c + sum_list (map (row_count t) ds)"
    by blast
  have same: "map (row_count t) ds = map (row_count s) ds"
    using Sds keep by simp
  have "reduce_loop (union_method E) (DataFrame a) (map DataFrame (d # ds)) s
          = (Inr (DataFrame r), u)"
    using un loop by (simp add: union_method_def)
  moreover have "row_count u r = row_count s a + sum_list (map (row_count s) (d # ds))"
    using total cnt same by simp
  ultimately show ?case by blast
qed

subsection \<open>Facts about the reference framework\<close>

lemma store_columns_id:
  "\<forall>d\<in>set [0, 1, 2]. ''id'' \<in> set (df_columns store_engine d example_store)"
  by (simp add: store_engine_def example_store_def)

lemma store_join_012:
  "fold_left (outer_join store_engine ''id'') (DataFrame 0) [DataFrame 1, DataFrame 2] example_store
     = (Inr (DataFrame 5), example_store @ [joined_01, joined_012])"
  by (simp add: fold_left_def py_bind_def py_return_def outer_join_def join_method_def
      store_engine_def example_store_def full_outer_join_def column_index_def without_def
      key_match_def joined_01_def joined_012_def Let_def)

lemma store_union_012:
  "fold_left (union_method store_engine) (DataFrame 0) [DataFrame 1, DataFrame 2] example_store
     = (Inr (DataFrame 5),
        example_store @
          [union_all (example_store ! 0) (example_store ! 1),
           union_all (union_all (example_store ! 0) (example_store ! 1)) (example_store ! 2)])"
  by (simp add: fold_left_def py_bind_def py_return_def union_method_def
      store_engine_def example_store_def union_all_def)

lemma store_union_two_columns:
  assumes "two_columns s a" and "two_columns s b"
  shows "\<exists>c s'. df_union store_engine a (DataFrame b) s = (Inr c, s') \<and> two_columns s' c
        \<and> count_rows s' c = count_rows s a + count_rows s b
        \<and> (\<forall>d. two_columns s d \<longrightarrow> two_columns s' d \<and> count_rows s' d = count_rows s d)"
  using assms
  by (simp add: store_engine_def two_columns_def count_rows_def union_all_def nth_append)

lemma store_join_keeps_objects:
  "store_objects s \<subseteq>\<^sub>m store_objects (snd (df_join store_engine a b on how s))"
  by (cases b)
    (auto simp: store_engine_def store_objects_def map_le_def nth_append dom_def split: if_splits)

lemma store_union_keeps_objects:
  "store_objects s \<subseteq>\<^sub>m store_objects (snd (df_union store_engine a b s))"
  by (cases b)
    (auto simp: store_engine_def store_objects_def map_le_def nth_append dom_def split: if_splits)

subsection \<open>The arguments of create_map, grouped again\<close>

lemma key_value_pairs_chain:
  "key_value_pairs (map f (chain tuples)) = map (\<lambda>(x, y). (f x, f y)) tuples"
  by (induction tuples) (auto simp: chain_def)

lemma length_chain: "length (chain tuples) = 2 * length tuples"
  by (induction tuples) (auto simp: chain_def)

lemma keys_of_items:
  "map fst (map (\<lambda>(x, y). (Lit x, Lit y)) (items dict)) = map (\<lambda>k. Lit (PyStr k)) (map fst dict)"
  by (induction dict) (auto simp: items_def)

lemma distinct_keys_of_items:
  assumes "distinct (map fst dict)"
  shows "distinct (map fst (map (\<lambda>(x, y). (Lit x, Lit y)) (items dict)))"
proof -
  have "inj (\<lambda>k. Lit (PyStr k))" by (simp add: inj_def)
  then show ?thesis
    using assms by (simp only: keys_of_items distinct_map) (simp add: inj_on_def)
qed

lemma map_of_items:
  assumes "distinct (map fst dict)" and "(k, v) \<in> set dict"
  shows "map_of (map (\<lambda>(x, y). (Lit x, Lit y)) (items dict)) (Lit (PyStr k)) = Some (Lit (PyInt v))"
  using assms
proof (induction dict)
  case Nil
  then show ?case by simp
next
  case (Cons p dict)
  obtain k' v' where p: "p = (k', v')" by (cases p)
  show ?case
  proof (cases "k' = k")
    case True
    with Cons.prems p have "v' = v" by (auto simp: image_iff)
    with True p show ?thesis by (simp add: items_def)
  next
    case False
    with Cons p show ?thesis by (simp add: items_def)
  qed
qed

text \<open>With every value in the 64-bit range, each literal of the dictionary is built.\<close>

lemma list_map_spark_lit:
  assumes "\<forall>v\<in>snd ` set dict. int64 v"
  shows "list_map spark_lit (chain (items dict)) = Inr (map Lit (chain (items dict)))"
  using assms by (induction dict) (auto simp: chain_def items_def)

section \<open>Properties\<close>

subsection \<open>join_dataframes_on_column\<close>

text \<open>
  C1. For every non-empty sequence of DataFrames \<open>d1, ..., dn\<close> that all have the column,
  join_dataframes_on_column returns the left-to-right fold of the pairwise outer join on
  that column over the sequence in the order given,
  \<open>((d1 outer-join d2) outer-join d3) ... outer-join dn\<close>, whether the sequence is passed
  as positional arguments or as one list.
\<close>

theorem join_is_left_fold:
  assumes "\<forall>d\<in>set (d1 # ds). column_name \<in> set (df_columns E d s)"
  shows "join_dataframes_on_column E column_name (map DataFrame (d1 # ds)) s
           = fold_left (outer_join E column_name) (DataFrame d1) (map DataFrame ds) s
       \<and> join_dataframes_on_column E column_name (PyList (d1 # ds) # rest) s
           = fold_left (outer_join E column_name) (DataFrame d1) (map DataFrame ds) s"
proof -
  have ok: "all_have_column E column_name (map DataFrame (d1 # ds)) s = Inr True"
    using assms by (simp only: all_have_column_DataFrames) simp
  show ?thesis
    using ok
    by (simp add: join_dataframes_on_column_def join_lambda_outer_join
        reduce_loop_fold_left)
qed

theorem join_is_left_fold_witness:
  "join_dataframes_on_column store_engine ''id'' [DataFrame 0, DataFrame 1, DataFrame 2]
       example_store
     = (Inr (DataFrame 5), example_store @ [joined_01, joined_012])
   \<and> join_dataframes_on_column store_engine ''id'' [PyList [0, 1, 2]] example_store
     = (Inr (DataFrame 5), example_store @ [joined_01, joined_012])"
  using join_is_left_fold [of 0 "[1, 2]" "''id''" store_engine example_store "[]",
      OF store_columns_id]
  by (simp only: list.map store_join_012)

text \<open>
  C4. For every non-empty sequence of DataFrames of which at least one lacks the column,
  join_dataframes_on_column raises the ValueError that names the column, and the
  framework's state is the one before the call: no join was made.
\<close>

theorem missing_column_raises:
  assumes "ds \<noteq> []" and "\<exists>d\<in>set ds. column_name \<notin> set (df_columns E d s)"
  shows "join_dataframes_on_column E column_name (map DataFrame ds) s
           = (Inl (column_not_found column_name), s)
       \<and> join_dataframes_on_column E column_name (PyList ds # rest) s
           = (Inl (column_not_found column_name), s)"
proof -
  have bad: "all_have_column E column_name (map DataFrame ds) s = Inr False"
    using assms(2) by (simp only: all_have_column_DataFrames) simp
  from assms(1) obtain d1 rest' where ds: "ds = d1 # rest'" by (cases ds) auto
  show ?thesis
    using bad by (simp add: join_dataframes_on_column_def ds)
qed

theorem missing_column_raises_witness:
  "join_dataframes_on_column store_engine ''id'' [DataFrame 0, DataFrame 3, DataFrame 1]
       example_store
     = (Inl (ValueError ''Column 'id' not found in all DataFrames''), example_store)
   \<and> join_dataframes_on_column store_engine ''id'' [PyList [0, 3, 1]] example_store
     = (Inl (ValueError ''Column 'id' not found in all DataFrames''), example_store)"
proof -
  have missing: "\<exists>d\<in>set [0, 3, 1]. ''id'' \<notin> set (df_columns store_engine d example_store)"
    by (simp add: store_engine_def example_store_def)
  have some: "[0, 3, 1] \<noteq> ([] :: nat list)" by simp
  show ?thesis
    using missing_column_raises [of "[0, 3, 1]" "''id''" store_engine example_store "[]",
        OF some missing]
    by (simp add: column_not_found_def)
qed

subsection \<open>union_dataframes\<close>

text \<open>
  C5. For every non-empty sequence of DataFrames \<open>d1, ..., dn\<close>, union_dataframes returns
  the left-to-right fold of the pairwise union, \<open>((d1 union d2) union d3) ... union dn\<close>,
  whatever the schemas are: it never reads the columns of an operand (its result is the
  same under any other \<open>df_columns\<close>), so that a schema mismatch shows only as the
  framework's own failure inside the fold.
\<close>

theorem union_is_left_fold:
  "union_dataframes E (map DataFrame (d1 # ds)) s
     = fold_left (union_method E) (DataFrame d1) (map DataFrame ds) s
   \<and> union_dataframes E (PyList (d1 # ds) # rest) s
     = fold_left (union_method E) (DataFrame d1) (map DataFrame ds) s
   \<and> union_dataframes (E\<lparr>df_columns := cols\<rparr>) dataframes s = union_dataframes E dataframes s"
proof -
  have "union_method (E\<lparr>df_columns := cols\<rparr>) = union_method E"
    by (simp add: fun_eq_iff union_method_def split: pyval.splits)
  then show ?thesis
    by (simp add: union_dataframes_def reduce_loop_fold_left)
qed

theorem union_is_left_fold_witness:
  "union_dataframes store_engine [DataFrame 0, DataFrame 1, DataFrame 2] example_store
     = (Inr (DataFrame 5),
        example_store @
          [union_all (example_store ! 0) (example_store ! 1),
           union_all (union_all (example_store ! 0) (example_store ! 1)) (example_store ! 2)])"
  using union_is_left_fold [of store_engine 0 "[1, 2]" example_store "[]" "\<lambda>d s. []" "[]"]
  by (simp only: list.map store_union_012)

text \<open>
  C6. Let \<open>S\<close> be a family of DataFrames with compatible schemas: the framework's union of
  two members succeeds, gives a member whose row count is the sum of the two (a union
  that keeps duplicates), and leaves the members there were and their row counts alone.
  Then for every non-empty sequence of \<open>N\<close> members union_dataframes returns a DataFrame,
  and its row count is the sum of the row counts of the \<open>N\<close> inputs.
\<close>

theorem union_row_count:
  fixes E :: "('df, 's) engine" and S :: "'s \<Rightarrow> 'df \<Rightarrow> bool"
    and row_count :: "'s \<Rightarrow> 'df \<Rightarrow> nat"
  assumes step: "\<And>a b s. S s a \<Longrightarrow> S s b \<Longrightarrow>
      \<exists>c s'. df_union E a (DataFrame b) s = (Inr c, s') \<and> S s' c
        \<and> row_count s' c = row_count s a + row_count s b
        \<and> (\<forall>d. S s d \<longrightarrow> S s' d \<and> row_count s' d = row_count s d)"
    and nonempty: "ds \<noteq> []"
    and members: "\<forall>d\<in>set ds. S s d"
  shows "\<exists>r s'. union_dataframes E (map DataFrame ds) s = (Inr (DataFrame r), s')
           \<and> row_count s' r = sum_list (map (row_count s) ds)"
proof -
  from nonempty obtain d1 rest where ds: "ds = d1 # rest" by (cases ds) auto
  from members ds have "S s d1" and "\<forall>d\<in>set rest. S s d" by simp_all
  from union_loop_row_count [of S E row_count, OF step this]
  show ?thesis by (simp add: ds union_dataframes_def)
qed

theorem union_row_count_witness:
  "\<exists>r s'. union_dataframes store_engine [DataFrame 0, DataFrame 1, DataFrame 2] example_store
             = (Inr (DataFrame r), s')
     \<and> count_rows s' r = 5"
proof -
  have members: "\<forall>d\<in>set [0, 1, 2]. two_columns example_store d"
    by (simp add: two_columns_def example_store_def)
  have "sum_list (map (count_rows example_store) [0, 1, 2]) = 5"
    by (simp add: count_rows_def example_store_def)
  then show ?thesis
    using union_row_count [of two_columns store_engine count_rows "[0, 1, 2]" example_store,
        OF store_union_two_columns _ members]
    by simp
qed

subsection \<open>Both combinators\<close>

text \<open>
  C3. Called with no positional argument, join_dataframes_on_column and union_dataframes
  raise ValueError, and called with an empty list as the only operand list they raise the
  TypeError of reduce; in all four cases the framework's state is the one before the call,
  whatever the framework is: no join and no union was made.
\<close>

theorem zero_dataframes_raise:
  "join_dataframes_on_column E column_name [] s = (Inl at_least_one, s)
   \<and> union_dataframes E [] s = (Inl at_least_one, s)
   \<and> join_dataframes_on_column E column_name (PyList [] # rest) s
       = (Inl (TypeError ''reduce() of empty iterable with no initial value''), s)
   \<and> union_dataframes E (PyList [] # rest) s
       = (Inl (TypeError ''reduce() of empty iterable with no initial value''), s)"
  by (simp add: join_dataframes_on_column_def union_dataframes_def)

text \<open>
  C8. Neither combinator changes a DataFrame it is given. The DataFrame objects live in
  the framework's state: \<open>objects s d\<close> is the object the handle \<open>d\<close> stands for in
  state \<open>s\<close>. If no join and no union of the framework changes an object that is there
  (DataFrames are immutable in the framework), then after any call of
  join_dataframes_on_column or union_dataframes, on any arguments, every object that was
  there before the call is there unchanged; the arguments are among them.
\<close>

theorem arguments_not_mutated:
  fixes E :: "('df, 's) engine" and objects :: "'s \<Rightarrow> 'df \<Rightarrow> 'obj option"
  assumes join_frame:
      "\<And>a b on how s. objects s \<subseteq>\<^sub>m objects (snd (df_join E a b on how s))"
    and union_frame: "\<And>a b s. objects s \<subseteq>\<^sub>m objects (snd (df_union E a b s))"
  shows "objects s \<subseteq>\<^sub>m objects (snd (join_dataframes_on_column E column_name dataframes s))
       \<and> objects s \<subseteq>\<^sub>m objects (snd (union_dataframes E dataframes s))"
proof -
  let ?R = "\<lambda>s t. objects s \<subseteq>\<^sub>m objects t"
  have refl: "?R s s" for s by simp
  have trans: "?R s t \<Longrightarrow> ?R t u \<Longrightarrow> ?R s u" for s t u by (rule map_le_trans)
  have jm: "?R s (snd (join_method E a b on how s))" for a b on how s
  proof (cases a)
    case (DataFrame d)
    obtain r t where "df_join E d b on how s = (r, t)" by (cases "df_join E d b on how s")
    then show ?thesis using join_frame [of s d b on how] DataFrame by (simp add: join_method_def)
  next
    case (PyList l)
    then show ?thesis by (simp add: join_method_def)
  qed
  have um: "?R s (snd (union_method E a b s))" for a b s
  proof (cases a)
    case (DataFrame d)
    obtain r t where "df_union E d b s = (r, t)" by (cases "df_union E d b s")
    then show ?thesis using union_frame [of s d b] DataFrame by (simp add: union_method_def)
  next
    case (PyList l)
    then show ?thesis by (simp add: union_method_def)
  qed
  have red: "?R s (snd (reduce f xs s))" if "\<And>a b s. ?R s (snd (f a b s))"
    for f :: "'df pyval \<Rightarrow> 'df pyval \<Rightarrow> ('df pyval, 's) py" and xs s
  proof (cases xs)
    case Nil
    then show ?thesis by simp
  next
    case (Cons x xs')
    have "?R s (snd (reduce_loop f x xs' s))"
      by (rule reduce_loop_frame [of ?R f, OF refl trans that])
    then show ?thesis using Cons by simp
  qed
  show ?thesis
    using red [of "\<lambda>df1 df2. join_method E df1 df2 column_name ''outer''", OF jm]
      red [of "union_method E", OF um]
    by (simp add: join_dataframes_on_column_def union_dataframes_def Let_def split: sum.splits)
qed

theorem arguments_not_mutated_witness:
  "store_objects
     (snd (join_dataframes_on_column store_engine ''id'' [DataFrame 0, DataFrame 1] example_store))
     0 = Some (example_store ! 0)
   \<and> store_objects
     (snd (join_dataframes_on_column store_engine ''id'' [DataFrame 0, DataFrame 1] example_store))
     1 = Some (example_store ! 1)
   \<and> store_objects
     (snd (union_dataframes store_engine [PyList [0, 1]] example_store))
     1 = Some (example_store ! 1)"
proof -
  have before: "store_objects example_store 0 = Some (example_store ! 0)"
    "store_objects example_store 1 = Some (example_store ! 1)"
    by (simp_all add: store_objects_def example_store_def)
  note frame = arguments_not_mutated [of store_objects store_engine example_store,
      OF store_join_keeps_objects store_union_keeps_objects]
  have "store_objects example_store \<subseteq>\<^sub>m store_objects
      (snd (join_dataframes_on_column store_engine ''id'' [DataFrame 0, DataFrame 1] example_store))"
    and "store_objects example_store \<subseteq>\<^sub>m store_objects
      (snd (union_dataframes store_engine [PyList [0, 1]] example_store))"
    using frame by blast+
  then show ?thesis
    using before by (auto simp: map_le_def dom_def)
qed

text \<open>
  C9. When the first positional argument is a list of DataFrames, that list is the
  operand sequence and the other positional arguments are ignored, in both combinators;
  the column check of the join is made on the elements of the list.
\<close>

theorem first_list_is_operands:
  "join_dataframes_on_column E column_name (PyList l # rest) s
     = (if \<forall>d\<in>set l. column_name \<in> set (df_columns E d s)
        then reduce (outer_join E column_name) (map DataFrame l) s
        else (Inl (column_not_found column_name), s))
   \<and> union_dataframes E (PyList l # rest) s = reduce (union_method E) (map DataFrame l) s
   \<and> join_dataframes_on_column E column_name (PyList l # rest) s
     = join_dataframes_on_column E column_name [PyList l] s
   \<and> union_dataframes E (PyList l # rest) s = union_dataframes E [PyList l] s"
  by (simp add: join_dataframes_on_column_def union_dataframes_def
      all_have_column_DataFrames join_lambda_outer_join)

theorem first_list_is_operands_witness:
  "join_dataframes_on_column store_engine ''id'' [PyList [0, 1, 2], DataFrame 3] example_store
     = (Inr (DataFrame 5), example_store @ [joined_01, joined_012])
   \<and> join_dataframes_on_column store_engine ''id'' [PyList [0, 3], DataFrame 1] example_store
     = (Inl (column_not_found ''id''), example_store)
   \<and> union_dataframes store_engine [PyList [0], DataFrame 3, PyList []] example_store
     = (Inr (DataFrame 0), example_store)"
proof -
  have loop: "reduce (outer_join store_engine ''id'') (map DataFrame [0, 1, 2]) example_store
      = (Inr (DataFrame 5), example_store @ [joined_01, joined_012])"
    using store_join_012 by (simp add: reduce_loop_fold_left)
  have cols: "df_columns store_engine 3 example_store = [''k'', ''c'']"
    "df_columns store_engine 0 example_store = [''id'', ''a'']"
    by (simp_all add: store_engine_def example_store_def)
  show ?thesis
    using first_list_is_operands [of store_engine "''id''" "[0, 1, 2]" "[DataFrame 3]" example_store]
      first_list_is_operands [of store_engine "''id''" "[0, 3]" "[DataFrame 1]" example_store]
      first_list_is_operands [of store_engine "''id''" "[0]" "[DataFrame 3, PyList []]" example_store]
      loop store_columns_id
    by (simp add: cols)
qed

text \<open>
  C10. On a single DataFrame \<open>d\<close> (which has the column, for the join) both combinators
  return \<open>d\<close> itself and leave the framework's state as it was, whatever the framework
  is: no join and no union is made. The same holds for the one-element list.
\<close>

theorem single_dataframe_identity:
  "(column_name \<in> set (df_columns E d s) \<longrightarrow>
      join_dataframes_on_column E column_name [DataFrame d] s = (Inr (DataFrame d), s)
      \<and> join_dataframes_on_column E column_name [PyList [d]] s = (Inr (DataFrame d), s))
   \<and> union_dataframes E [DataFrame d] s = (Inr (DataFrame d), s)
   \<and> union_dataframes E [PyList [d]] s = (Inr (DataFrame d), s)"
  by (simp add: join_dataframes_on_column_def union_dataframes_def
      columns_attr_def)

theorem single_dataframe_identity_witness:
  "join_dataframes_on_column store_engine ''id'' [DataFrame 1] example_store
     = (Inr (DataFrame 1), example_store)
   \<and> join_dataframes_on_column store_engine ''id'' [PyList [1]] example_store
     = (Inr (DataFrame 1), example_store)
   \<and> union_dataframes store_engine [DataFrame 1] example_store
     = (Inr (DataFrame 1), example_store)"
proof -
  have "''id'' \<in> set (df_columns store_engine 1 example_store)"
    by (simp add: store_engine_def example_store_def)
  then show ?thesis
    using single_dataframe_identity [of "''id''" store_engine 1 example_store] by simp
qed

subsection \<open>create_map_from_dict\<close>

text \<open>
  C2, as the specification states it: for every dictionary of string keys to integer
  values, each key looked up in the map column gives its value. A Python integer has no
  bound, and the framework takes no integer literal beyond 64 bits: on the dictionary
  \<^verbatim>\<open>{"a": 2**63}\<close> the call of \<^verbatim>\<open>F.lit\<close> raises and there is no column to look anything up in.
\<close>

theorem big_value_counterexample:
  "create_map_from_dict spark_functions [(''a'', 2 ^ 63)]
     = Inl (Py4JError ''NumberFormatException'')"
  by (simp add: create_map_from_dict_def spark_functions_def items_def chain_def int64_def)

text \<open>
  C2, amended. For every dictionary (a list of items with distinct keys) whose values
  all fit a signed 64-bit integer, and each of its items \<open>(k, v)\<close>: create_map_from_dict
  returns a map column, and looking the key \<open>k\<close> up in it gives the value \<open>v\<close>.
\<close>

theorem dict_map_round_trip:
  assumes keys: "distinct (map fst dict)"
    and in_range: "\<forall>v\<in>snd ` set dict. int64 v"
    and item: "(k, v) \<in> set dict"
  shows "\<exists>m. create_map_from_dict spark_functions dict = Inr m
           \<and> element_at m (Lit (PyStr k)) = Inr (Some (Lit (PyInt v)))"
proof -
  let ?cols = "map Lit (chain (items dict))"
  have built: "create_map_from_dict spark_functions dict = Inr (CreateMap ?cols)"
    by (simp add: create_map_from_dict_def spark_functions_def list_map_spark_lit [OF in_range])
  from item have "dict \<noteq> []" by auto
  then have some: "?cols \<noteq> []" by (cases dict) (auto simp: chain_def items_def)
  have even: "\<not> odd (length ?cols)" by (simp add: length_chain)
  have "element_at (CreateMap ?cols) (Lit (PyStr k)) = Inr (Some (Lit (PyInt v)))"
    using some even distinct_keys_of_items [OF keys] map_of_items [OF keys item]
    by (simp add: element_at_def key_value_pairs_chain)
  with built show ?thesis by simp
qed

theorem dict_map_round_trip_witness:
  "\<exists>m. create_map_from_dict spark_functions [(''a'', 1), (''b'', 2 ^ 63 - 1)] = Inr m
     \<and> element_at m (Lit (PyStr ''b'')) = Inr (Some (Lit (PyInt (2 ^ 63 - 1))))"
  using dict_map_round_trip [of "[(''a'', 1), (''b'', 2 ^ 63 - 1)]" "''b''" "2 ^ 63 - 1"]
  by (simp add: int64_def)

text \<open>
  C7, as the specification states it: create_map_from_dict fails on an empty mapping.
  It does not with the reference framework, which builds the empty map.
\<close>

theorem empty_dict_counterexample:
  "create_map_from_dict spark_functions [] = Inr (CreateMap [])"
  by (simp add: create_map_from_dict_def spark_functions_def items_def chain_def)

text \<open>
  C7, amended. create_map_from_dict makes no check of its own: on an empty mapping it
  calls the framework's create_map with an empty list of columns and returns what that
  returns, so it fails there exactly when the framework does.
\<close>

theorem empty_dict_is_frameworks_answer:
  "create_map_from_dict F [] = F_create_map F []"
  by (simp add: create_map_from_dict_def items_def chain_def)

end
